theory Spec2Isabelle
  imports Main "HOL-Library.DAList"
begin

section \<open>The evaluation context of the scripting engine (pkg/eval/types/context.go)\<close>

text \<open>
  The package defines the document handle, the sets of variables and functions, and
  the \<open>Context\<close> that bundles them with a coalescer. Its properties are about sharing:
  \<open>*Document\<close> is a pointer, \<open>Variables\<close> and \<open>Functions\<close> are Go maps (references to a
  map object), and \<open>Context\<close> is a struct passed by value that holds such references.
  The model therefore has an explicit store: every method takes the store and, when it
  allocates or writes, returns the new one. A run-time panic of the Go code is a value
  \<open>Inl p\<close> of the result.
\<close>

subsection \<open>References, interface values and panics\<close>

type_synonym addr = nat

text \<open>A pointer or a map value: \<open>None\<close> is Go's \<open>nil\<close>, \<open>Some a\<close> refers to object \<open>a\<close>.\<close>

type_synonym ref = "addr option"

text \<open>
  Values of the interface types \<open>any\<close>, \<open>Function\<close> and \<open>coalescing.Coalescer\<close>:
  \<open>None\<close> is the nil interface (the zero value), \<open>Some x\<close> holds the dynamic value \<open>x\<close>.
  What the dynamic values are is left open (a type parameter).
\<close>

type_synonym 'v any = "'v option"
type_synonym 'f Function = "'f option"
type_synonym 'k Coalescer = "'k option"

datatype error = Error string

datatype panic = NilMapAssignment | NilPointerDereference | InterfaceConversion

subsection \<open>The store\<close>

record 'v Document =
  data :: "'v any"

text \<open>
  Objects live in three arrays, one per kind; the address of an object is its index and
  allocation appends, so a new address is one no earlier reference can hold. Go's
  allocator never hands out a reference to an object that does not exist; in the model
  a reference beyond the array denotes no object and is treated like \<open>nil\<close>.
\<close>

record ('v, 'f) store =
  documents :: "'v Document list"
  variable_maps :: "(string, 'v any) alist list"
  function_maps :: "(string, 'f Function) alist list"

definition deref :: "'a list \<Rightarrow> ref \<Rightarrow> 'a option" where
  "deref xs r = (case r of None \<Rightarrow> None
                 | Some a \<Rightarrow> if a < length xs then Some (xs ! a) else None)"

text \<open>\<open>allocated xs r\<close>: the reference is not nil and denotes an object of \<open>xs\<close>;
  \<open>valid xs r\<close>: it is nil or allocated.\<close>

definition allocated :: "'a list \<Rightarrow> ref \<Rightarrow> bool" where
  "allocated xs r = (case r of None \<Rightarrow> False | Some a \<Rightarrow> a < length xs)"

definition valid :: "'a list \<Rightarrow> ref \<Rightarrow> bool" where
  "valid xs r = (case r of None \<Rightarrow> True | Some a \<Rightarrow> a < length xs)"

subsection \<open>Go's built-in map operations\<close>

text \<open>
  A map object is an association list with distinct keys. \<open>make_map\<close> is the literal
  \<open>T{}\<close>; \<open>map_index\<close> is \<open>m[k]\<close> (\<open>None\<close> when the key is absent, also on a nil map);
  \<open>map_range\<close> lists the entries a \<open>range\<close> loop visits, in the order of one run (none on
  a nil map); \<open>map_assign\<close> is \<open>m[k] = x\<close>, which panics on a nil map; \<open>map_delete\<close> is
  \<open>delete(m, k)\<close>, a no-op on a nil map.
\<close>

definition make_map :: "('k, 'x) alist list \<Rightarrow> ref \<times> ('k, 'x) alist list" where
  "make_map ms = (Some (length ms), ms @ [DAList.empty])"

definition map_index :: "('k, 'x) alist list \<Rightarrow> ref \<Rightarrow> 'k \<Rightarrow> 'x option" where
  "map_index ms r k = (case deref ms r of None \<Rightarrow> None | Some m \<Rightarrow> DAList.lookup m k)"

definition map_range :: "('k, 'x) alist list \<Rightarrow> ref \<Rightarrow> ('k \<times> 'x) list" where
  "map_range ms r = (case deref ms r of None \<Rightarrow> [] | Some m \<Rightarrow> DAList.impl_of m)"

definition map_assign ::
  "('k, 'x) alist list \<Rightarrow> ref \<Rightarrow> 'k \<Rightarrow> 'x \<Rightarrow> panic + ('k, 'x) alist list" where
  "map_assign ms r k x = (case r of None \<Rightarrow> Inl NilMapAssignment
     | Some a \<Rightarrow> (case deref ms r of None \<Rightarrow> Inl NilMapAssignment
         | Some m \<Rightarrow> Inr (ms[a := DAList.update k x m])))"

definition map_delete :: "('k, 'x) alist list \<Rightarrow> ref \<Rightarrow> 'k \<Rightarrow> ('k, 'x) alist list" where
  "map_delete ms r k = (case r of None \<Rightarrow> ms
     | Some a \<Rightarrow> (case deref ms r of None \<Rightarrow> ms
         | Some m \<Rightarrow> ms[a := DAList.delete k m]))"

text \<open>\<open>for k, x := range entries { body }\<close>: the body runs once per entry and a panic
  ends the loop.\<close>

fun range_loop :: "('k \<times> 'x) list \<Rightarrow> ('k \<Rightarrow> 'x \<Rightarrow> 's \<Rightarrow> panic + 's) \<Rightarrow> 's \<Rightarrow> panic + 's" where
  "range_loop [] body s = Inr s"
| "range_loop ((k, x) # es) body s =
     (case body k x s of Inl p \<Rightarrow> Inl p | Inr s' \<Rightarrow> range_loop es body s')"

subsection \<open>Document\<close>

definition NewDocument :: "'v any \<Rightarrow> 'v Document \<times> error option" where
  "NewDocument d = (\<lparr>data = d\<rparr>, None)"

text \<open>The methods have pointer receivers: \<open>d.data\<close> dereferences \<open>d\<close>.\<close>

definition Document_Data :: "ref \<Rightarrow> ('v, 'f) store \<Rightarrow> panic + 'v any" where
  "Document_Data d h = (case deref (documents h) d of None \<Rightarrow> Inl NilPointerDereference
     | Some doc \<Rightarrow> Inr (data doc))"

definition Document_Set :: "ref \<Rightarrow> 'v any \<Rightarrow> ('v, 'f) store \<Rightarrow> panic + ('v, 'f) store" where
  "Document_Set d wrappedData h =
     (case d of None \<Rightarrow> Inl NilPointerDereference
      | Some a \<Rightarrow> (case deref (documents h) d of None \<Rightarrow> Inl NilPointerDereference
          | Some doc \<Rightarrow>
              Inr (h\<lparr>documents := (documents h)[a := doc\<lparr>data := wrappedData\<rparr>]\<rparr>)))"

text \<open>A variable of type \<open>Document\<close> whose address is taken (\<open>&doc\<close>, or a method call on
  the variable): a new cell holding a copy of the struct.\<close>

definition new_Document :: "'v Document \<Rightarrow> ('v, 'f) store \<Rightarrow> ref \<times> ('v, 'f) store" where
  "new_Document doc h =
     (Some (length (documents h)), h\<lparr>documents := documents h @ [doc]\<rparr>)"

subsection \<open>Functions\<close>

definition NewFunctions :: "('v, 'f) store \<Rightarrow> ref \<times> ('v, 'f) store" where
  "NewFunctions h = (let (r, ms) = make_map (function_maps h) in (r, h\<lparr>function_maps := ms\<rparr>))"

definition Functions_Get :: "ref \<Rightarrow> string \<Rightarrow> ('v, 'f) store \<Rightarrow> 'f Function \<times> bool" where
  "Functions_Get f name h = (case map_index (function_maps h) f name of
       None \<Rightarrow> (None, False)
     | Some variable \<Rightarrow> (variable, True))"

text \<open>The statement \<open>f[name] = fun\<close>.\<close>

definition Functions_assign ::
  "ref \<Rightarrow> string \<Rightarrow> 'f Function \<Rightarrow> ('v, 'f) store \<Rightarrow> panic + ('v, 'f) store" where
  "Functions_assign f name fn h = (case map_assign (function_maps h) f name fn of
       Inl p \<Rightarrow> Inl p
     | Inr ms \<Rightarrow> Inr (h\<lparr>function_maps := ms\<rparr>))"

definition Functions_Set ::
  "ref \<Rightarrow> string \<Rightarrow> 'f Function \<Rightarrow> ('v, 'f) store \<Rightarrow> panic + (ref \<times> ('v, 'f) store)" where
  "Functions_Set f name fn h = (case Functions_assign f name fn h of
       Inl p \<Rightarrow> Inl p
     | Inr h' \<Rightarrow> Inr (f, h'))"

definition Functions_Delete :: "ref \<Rightarrow> string \<Rightarrow> ('v, 'f) store \<Rightarrow> ref \<times> ('v, 'f) store" where
  "Functions_Delete f name h = (f, h\<lparr>function_maps := map_delete (function_maps h) f name\<rparr>)"

definition Functions_Add ::
  "ref \<Rightarrow> ref \<Rightarrow> ('v, 'f) store \<Rightarrow> panic + (ref \<times> ('v, 'f) store)" where
  "Functions_Add f other h =
     (case range_loop (map_range (function_maps h) other)
             (\<lambda>name fn. Functions_assign f name fn) h of
        Inl p \<Rightarrow> Inl p
      | Inr h' \<Rightarrow> Inr (f, h'))"

definition Functions_Remove :: "ref \<Rightarrow> ref \<Rightarrow> ('v, 'f) store \<Rightarrow> ref \<times> ('v, 'f) store" where
  "Functions_Remove f other h =
     (f, fold (\<lambda>(name, _) h'. snd (Functions_Delete f name h'))
           (map_range (function_maps h) other) h)"

definition Functions_DeepCopy :: "ref \<Rightarrow> ('v, 'f) store \<Rightarrow> panic + (ref \<times> ('v, 'f) store)" where
  "Functions_DeepCopy f h =
     (let (result, h1) = NewFunctions h in
      case range_loop (map_range (function_maps h1) f)
             (\<lambda>key val. Functions_assign result key val) h1 of
        Inl p \<Rightarrow> Inl p
      | Inr h2 \<Rightarrow> Inr (result, h2))"

subsection \<open>Variables\<close>

definition NewVariables :: "('v, 'f) store \<Rightarrow> ref \<times> ('v, 'f) store" where
  "NewVariables h = (let (r, ms) = make_map (variable_maps h) in (r, h\<lparr>variable_maps := ms\<rparr>))"

definition Variables_Get :: "ref \<Rightarrow> string \<Rightarrow> ('v, 'f) store \<Rightarrow> 'v any \<times> bool" where
  "Variables_Get v name h = (case map_index (variable_maps h) v name of
       None \<Rightarrow> (None, False)
     | Some variable \<Rightarrow> (variable, True))"

text \<open>The statement \<open>v[name] = val\<close>.\<close>

definition Variables_assign ::
  "ref \<Rightarrow> string \<Rightarrow> 'v any \<Rightarrow> ('v, 'f) store \<Rightarrow> panic + ('v, 'f) store" where
  "Variables_assign v name val h = (case map_assign (variable_maps h) v name val of
       Inl p \<Rightarrow> Inl p
     | Inr ms \<Rightarrow> Inr (h\<lparr>variable_maps := ms\<rparr>))"

definition Variables_Set ::
  "ref \<Rightarrow> string \<Rightarrow> 'v any \<Rightarrow> ('v, 'f) store \<Rightarrow> panic + (ref \<times> ('v, 'f) store)" where
  "Variables_Set v name val h = (case Variables_assign v name val h of
       Inl p \<Rightarrow> Inl p
     | Inr h' \<Rightarrow> Inr (v, h'))"

definition Variables_DeepCopy :: "ref \<Rightarrow> ('v, 'f) store \<Rightarrow> panic + (ref \<times> ('v, 'f) store)" where
  "Variables_DeepCopy v h =
     (let (result, h1) = NewVariables h in
      case range_loop (map_range (variable_maps h1) v)
             (\<lambda>key val. Variables_assign result key val) h1 of
        Inl p \<Rightarrow> Inl p
      | Inr h2 \<Rightarrow> Inr (result, h2))"

definition Variables_With ::
  "ref \<Rightarrow> string \<Rightarrow> 'v any \<Rightarrow> ('v, 'f) store \<Rightarrow> panic + (ref \<times> ('v, 'f) store)" where
  "Variables_With v name val h = (case Variables_DeepCopy v h of
       Inl p \<Rightarrow> Inl p
     | Inr (copy, h1) \<Rightarrow> Variables_Set copy name val h1)"

subsection \<open>Context\<close>

record 'k Context =
  document :: ref
  funcs :: ref
  variables :: ref
  coalescer :: "'k Coalescer"

text \<open>
  \<open>NewContext\<close> receives the document by value; \<open>&doc\<close> is the address of that
  parameter, a cell of its own. Package \<open>coalescing\<close> is not part of the sources at
  hand, so the result of its factory \<open>coalescing.NewStrict()\<close> is the parameter
  \<open>NewStrict\<close>.
\<close>

definition NewContext ::
  "'k Coalescer \<Rightarrow> 'v Document \<Rightarrow> ref \<Rightarrow> ref \<Rightarrow> 'k Coalescer \<Rightarrow> ('v, 'f) store
     \<Rightarrow> 'k Context \<times> ('v, 'f) store" where
  "NewContext NewStrict doc vars fns coal h =
     (let (pdoc, h0) = new_Document doc h;
          (fns', h1) = (if fns = None then NewFunctions h0 else (fns, h0));
          (vars', h2) = (if vars = None then NewVariables h1 else (vars, h1));
          coal' = (if coal = None then NewStrict else coal)
      in (\<lparr>document = pdoc, funcs = fns', variables = vars', coalescer = coal'\<rparr>, h2))"

definition Coalesce :: "'k Context \<Rightarrow> 'k Coalescer" where
  "Coalesce c = coalescer c"

definition GetDocument :: "'k Context \<Rightarrow> ref" where
  "GetDocument c = document c"

definition GetVariable :: "'k Context \<Rightarrow> string \<Rightarrow> ('v, 'f) store \<Rightarrow> 'v any \<times> bool" where
  "GetVariable c name h = Variables_Get (variables c) name h"

definition GetFunction :: "'k Context \<Rightarrow> string \<Rightarrow> ('v, 'f) store \<Rightarrow> 'f Function \<times> bool" where
  "GetFunction c name h = Functions_Get (funcs c) name h"

definition WithVariable ::
  "'k Context \<Rightarrow> string \<Rightarrow> 'v any \<Rightarrow> ('v, 'f) store \<Rightarrow> panic + ('k Context \<times> ('v, 'f) store)" where
  "WithVariable c name val h = (case Variables_With (variables c) name val h of
       Inl p \<Rightarrow> Inl p
     | Inr (vars', h') \<Rightarrow>
         Inr (\<lparr>document = document c, funcs = funcs c, variables = vars',
               coalescer = coalescer c\<rparr>, h'))"

definition WithCoalescer :: "'k Context \<Rightarrow> 'k Coalescer \<Rightarrow> 'k Context" where
  "WithCoalescer c coal =
     \<lparr>document = document c, funcs = funcs c, variables = variables c, coalescer = coal\<rparr>"

subsection \<open>Function values\<close>

text \<open>
  A \<open>TupleFunction\<close> receives the context and the unevaluated argument expressions
  (package \<open>ast\<close> is not at hand: expressions are the type parameter \<open>'e\<close>) and runs on
  some state \<open>'s\<close>; it panics or returns a value and an error. An implementation of the
  interface \<open>Function\<close> is its two methods.
\<close>

type_synonym ('k, 'e, 's, 'v) TupleFunction =
  "'k Context \<Rightarrow> 'e list \<Rightarrow> 's \<Rightarrow> panic + (('v any \<times> error option) \<times> 's)"

record ('k, 'e, 's, 'v) basicFunc =
  basicFunc_f :: "('k, 'e, 's, 'v) TupleFunction"
  basicFunc_desc :: string

record ('k, 'e, 's, 'v) Function_methods =
  Evaluate :: "('k, 'e, 's, 'v) TupleFunction"
  Description :: string

definition basicFunc_Evaluate ::
  "('k, 'e, 's, 'v) basicFunc \<Rightarrow> ('k, 'e, 's, 'v) TupleFunction" where
  "basicFunc_Evaluate b ctx args = (basicFunc_f b) ctx args"

definition basicFunc_Description :: "('k, 'e, 's, 'v) basicFunc \<Rightarrow> string" where
  "basicFunc_Description b = basicFunc_desc b"

definition BasicFunction ::
  "('k, 'e, 's, 'v) TupleFunction \<Rightarrow> string \<Rightarrow> ('k, 'e, 's, 'v) Function_methods" where
  "BasicFunction fn description =
     (let b = \<lparr>basicFunc_f = fn, basicFunc_desc = description\<rparr>
      in \<lparr>Evaluate = basicFunc_Evaluate b, Description = basicFunc_Description b\<rparr>)"

subsection \<open>Documents whose root is a map\<close>

text \<open>
  The root held in \<open>data\<close> may be of reference type: the embedding example passes
  \<open>map[string]any{"foo": 9000}\<close> as the document. Such a root is a reference to a map
  object; objects of type \<open>map[string]any\<close> live in \<open>variable_maps\<close>, whether they serve
  as a variable set or as data. \<open>root\<close> is the dynamic value of a root that is a number
  or a map.
\<close>

datatype root = Scalar nat | MapRoot ref

text \<open>
  The expression \<open>d.Data().(map[string]any)[key]\<close> and the statement
  \<open>d.Data().(map[string]any)[key] = val\<close>, a write inside the root. The type assertion
  panics on a root that is not a map.
\<close>

definition Document_root_index ::
  "ref \<Rightarrow> string \<Rightarrow> (root, 'f) store \<Rightarrow> panic + (root any \<times> bool)" where
  "Document_root_index d key h = (case Document_Data d h of
       Inl p \<Rightarrow> Inl p
     | Inr None \<Rightarrow> Inl InterfaceConversion
     | Inr (Some (Scalar i)) \<Rightarrow> Inl InterfaceConversion
     | Inr (Some (MapRoot m)) \<Rightarrow>
         (case map_index (variable_maps h) m key of
            None \<Rightarrow> Inr (None, False)
          | Some x \<Rightarrow> Inr (x, True)))"

definition Document_root_assign ::
  "ref \<Rightarrow> string \<Rightarrow> root any \<Rightarrow> (root, 'f) store \<Rightarrow> panic + (root, 'f) store" where
  "Document_root_assign d key val h = (case Document_Data d h of
       Inl p \<Rightarrow> Inl p
     | Inr None \<Rightarrow> Inl InterfaceConversion
     | Inr (Some (Scalar i)) \<Rightarrow> Inl InterfaceConversion
     | Inr (Some (MapRoot m)) \<Rightarrow>
         (case map_assign (variable_maps h) m key val of
            Inl p \<Rightarrow> Inl p
          | Inr ms \<Rightarrow> Inr (h\<lparr>variable_maps := ms\<rparr>)))"

text \<open>The write through handle \<open>w\<close> followed by the read through handle \<open>r\<close>.\<close>

definition root_assign_then_index ::
  "ref \<Rightarrow> ref \<Rightarrow> string \<Rightarrow> root any \<Rightarrow> (root, 'f) store \<Rightarrow> panic + (root any \<times> bool)" where
  "root_assign_then_index w r key val h = (case Document_root_assign w key val h of
       Inl p \<Rightarrow> Inl p
     | Inr h' \<Rightarrow> Document_root_index r key h')"

text \<open>
  The caller's document, object \<open>0\<close>, has the map \<open>{foo: 9000}\<close> as root; \<open>two_contexts\<close>
  are two contexts built from that document by separate calls of \<open>NewContext\<close>, with the
  store after both calls.
\<close>

definition map_root_store :: "(root, nat) store" where
  "map_root_store =
     \<lparr>documents = [\<lparr>data = Some (MapRoot (Some 0))\<rparr>],
      variable_maps = [DAList.update ''foo'' (Some (Scalar 9000)) DAList.empty],
      function_maps = []\<rparr>"

definition two_contexts :: "(nat Context \<times> nat Context) \<times> (root, nat) store" where
  "two_contexts =
     (let (c1, h1) = NewContext (Some 0) \<lparr>data = Some (MapRoot (Some 0))\<rparr> None None None
                       map_root_store;
          (c2, h2) = NewContext (Some 0) \<lparr>data = Some (MapRoot (Some 0))\<rparr> None None None h1
      in ((c1, c2), h2))"

subsection \<open>The built-in \<open>now\<close> (pkg/builtin/datetime/functions.go)\<close>

text \<open>
  Go's package \<open>time\<close> is not part of the sources. \<open>Now\<close> is the value \<open>time.Now()\<close>
  returns at the call (Go documents it as the current local time) and \<open>Format\<close> is the
  method \<open>Time.Format\<close>; both are parameters. The result is a string held in an
  \<open>any\<close>, with a nil error.
\<close>

definition nowFunction ::
  "'t \<Rightarrow> ('t \<Rightarrow> string \<Rightarrow> string) \<Rightarrow> string \<Rightarrow> string any \<times> error option" where
  "nowFunction Now Format format = (Some (Format Now format), None)"

text \<open>The description given to the entry \<open>"now"\<close> of \<open>datetime.Functions\<close>.\<close>

definition now_description :: string where
  "now_description = ''returns the current date & time (UTC), formatted like a Go date''"

text \<open>
  A clock for concrete runs: a time is seconds and a zone name, \<open>UTC\<close> replaces the zone,
  and formatting appends the zone to the layout.
\<close>

definition example_Now :: "nat \<times> string" where
  "example_Now = (1700000000, ''CET'')"

definition example_UTC :: "nat \<times> string \<Rightarrow> nat \<times> string" where
  "example_UTC t = (fst t, ''UTC'')"

definition example_Format :: "nat \<times> string \<Rightarrow> string \<Rightarrow> string" where
  "example_Format t layout = layout @ '' '' @ snd t"

subsection \<open>A small store for concrete runs\<close>

text \<open>
  One document with root \<open>7\<close>, one variable set \<open>{a: 1}\<close>, and two function sets,
  \<open>{now: 5}\<close> and \<open>{now: 6, if: 2}\<close>; \<open>example_context\<close> refers to the first object of each
  kind.
\<close>

definition example_store :: "(nat, nat) store" where
  "example_store =
     \<lparr>documents = [\<lparr>data = Some 7\<rparr>],
      variable_maps = [DAList.update ''a'' (Some 1) DAList.empty],
      function_maps =
        [DAList.update ''now'' (Some 5) DAList.empty,
         DAList.update ''now'' (Some 6) (DAList.update ''if'' (Some 2) DAList.empty)]\<rparr>"

definition example_context :: "nat Context" where
  "example_context = \<lparr>document = Some 0, funcs = Some 0, variables = Some 0, coalescer = Some 3\<rparr>"

section \<open>Properties\<close>

subsection \<open>References and map objects\<close>

lemma deref_Some_iff: "deref xs r = Some y \<longleftrightarrow> (\<exists>a. r = Some a \<and> a < length xs \<and> y = xs ! a)"
  by (auto simp: deref_def split: option.splits)

lemma deref_snoc:
  "deref (xs @ [y]) r = (if r = Some (length xs) then Some y else deref xs r)"
  by (auto simp: deref_def nth_append split: option.splits)

lemma deref_update:
  "deref (xs[a := y]) r = (if r = Some a \<and> a < length xs then Some y else deref xs r)"
  by (auto simp: deref_def split: option.splits)

lemma valid_not_fresh: "valid xs r \<Longrightarrow> r \<noteq> Some (length xs)"
  by (auto simp: valid_def)

lemma map_range_snoc_empty: "map_range (ms @ [DAList.empty]) r = map_range ms r"
  by (auto simp: map_range_def deref_def nth_append DAList.empty.rep_eq split: option.splits)

lemma lookup_fold_update:
  "distinct (map fst es) \<Longrightarrow>
   DAList.lookup (fold (\<lambda>(k, x). DAList.update k x) es m) n =
     (case map_of es n of Some x \<Rightarrow> Some x | None \<Rightarrow> DAList.lookup m n)"
proof (induction es arbitrary: m)
  case Nil
  then show ?case by simp
next
  case (Cons e es)
  obtain k x where e: "e = (k, x)" by (cases e)
  from Cons.prems e have k: "k \<notin> fst ` set es" and d: "distinct (map fst es)" by auto
  from k have "map_of es k = None" by (simp add: map_of_eq_None_iff)
  with Cons.IH [OF d, of "DAList.update k x m"] e show ?case
    by (auto simp: DAList.lookup_update split: option.splits)
qed

lemma Variables_range_loop:
  fixes h :: "('v, 'f) store"
  shows "a < length (variable_maps h) \<Longrightarrow>
   range_loop es (\<lambda>key val. Variables_assign (Some a) key val) h =
     Inr (h\<lparr>variable_maps := (variable_maps h)
            [a := fold (\<lambda>(k, x). DAList.update k x) es (variable_maps h ! a)]\<rparr>)"
proof (induction es arbitrary: h)
  case Nil
  then show ?case by simp
next
  case (Cons e es)
  obtain k x where e: "e = (k, x)" by (cases e)
  let ?h1 = "h\<lparr>variable_maps := (variable_maps h)[a := DAList.update k x (variable_maps h ! a)]\<rparr>"
  have step: "Variables_assign (Some a) k x h = Inr ?h1"
    using Cons.prems by (simp add: Variables_assign_def map_assign_def deref_def)
  have "a < length (variable_maps ?h1)" using Cons.prems by simp
  from Cons.IH [OF this] step e Cons.prems show ?case by simp
qed

lemma Variables_DeepCopy_eq:
  "Variables_DeepCopy v h =
     Inr (Some (length (variable_maps h)),
          h\<lparr>variable_maps := variable_maps h @
               [fold (\<lambda>(k, x). DAList.update k x) (map_range (variable_maps h) v) DAList.empty]\<rparr>)"
  by (simp add: Variables_DeepCopy_def NewVariables_def make_map_def Variables_range_loop
      map_range_snoc_empty)

lemma Variables_With_eq:
  "Variables_With v n x h =
     Inr (Some (length (variable_maps h)),
          h\<lparr>variable_maps := variable_maps h @
               [DAList.update n x
                  (fold (\<lambda>(k, y). DAList.update k y) (map_range (variable_maps h) v) DAList.empty)]\<rparr>)"
  by (simp add: Variables_With_def Variables_DeepCopy_eq Variables_Set_def Variables_assign_def
      map_assign_def deref_snoc)

lemma map_index_snoc:
  "map_index (ms @ [m]) r k = (if r = Some (length ms) then DAList.lookup m k else map_index ms r k)"
  by (simp add: map_index_def deref_snoc)

lemma map_index_update:
  "map_index (ms[a := m]) r k =
     (if r = Some a \<and> a < length ms then DAList.lookup m k else map_index ms r k)"
  by (simp add: map_index_def deref_update)

lemma map_index_range: "map_index ms r k = map_of (map_range ms r) k"
  by (simp add: map_index_def map_range_def DAList.lookup.rep_eq split: option.splits)

lemma distinct_map_range: "distinct (map fst (map_range ms r))"
  by (simp add: map_range_def split: option.splits)

lemma lookup_copy:
  "DAList.lookup (fold (\<lambda>(k, x). DAList.update k x) (map_range ms r) m) k =
     (case map_index ms r k of Some x \<Rightarrow> Some x | None \<Rightarrow> DAList.lookup m k)"
  by (simp add: lookup_fold_update distinct_map_range map_index_range)

lemma lookup_copy_empty:
  "DAList.lookup (fold (\<lambda>(k, x). DAList.update k x) (map_range ms r) DAList.empty) k =
     map_index ms r k"
  by (simp add: lookup_copy split: option.splits)

lemma Variables_Get_With:
  assumes "Variables_With v n x h = Inr (w, h1)"
  shows "Variables_Get w m h1 = (if m = n then (x, True) else Variables_Get v m h)"
  using assms
  by (auto simp: Variables_With_eq Variables_Get_def map_index_snoc lookup_copy_empty
      DAList.lookup_update)

lemma Variables_Get_With_frame:
  assumes "Variables_With v n x h = Inr (w, h1)" and "valid (variable_maps h) u"
  shows "Variables_Get u m h1 = Variables_Get u m h"
  using assms valid_not_fresh [of "variable_maps h" u]
  by (auto simp: Variables_With_eq Variables_Get_def map_index_snoc)

subsection \<open>Variables: \<open>With\<close> copies, \<open>Set\<close> writes in place\<close>

text \<open>
  Claim C3, as amended. For every variable set \<open>v\<close> (nil included), \<open>v.With(n, x)\<close>
  returns a new set \<open>w\<close> with \<open>w.Get(n) = (x, true)\<close> and \<open>w.Get(m) = v.Get(m)\<close> for every
  other name \<open>m\<close>, and \<open>v.Get\<close> answers after the call what it answered before. For
  every non-nil \<open>v\<close>, \<open>v.Set(n, x)\<close> returns \<open>v\<close> itself, after which \<open>v.Get(n) = (x, true)\<close>
  and the other names are as before.
\<close>

theorem Variables_With_copies_Set_in_place:
  assumes "valid (variable_maps h) v" and "m \<noteq> n"
  shows "(\<exists>w h1. Variables_With v n x h = Inr (w, h1) \<and>
           Variables_Get w n h1 = (x, True) \<and>
           Variables_Get w m h1 = Variables_Get v m h \<and>
           Variables_Get v n h1 = Variables_Get v n h \<and>
           Variables_Get v m h1 = Variables_Get v m h) \<and>
         (allocated (variable_maps h) v \<longrightarrow>
            (\<exists>h2. Variables_Set v n x h = Inr (v, h2) \<and>
               Variables_Get v n h2 = (x, True) \<and>
               Variables_Get v m h2 = Variables_Get v m h))"
proof (intro conjI impI)
  obtain w h1 where W: "Variables_With v n x h = Inr (w, h1)"
    by (simp add: Variables_With_eq)
  from Variables_Get_With [OF W] Variables_Get_With_frame [OF W assms(1)] assms(2) W
  show "\<exists>w h1. Variables_With v n x h = Inr (w, h1) \<and>
           Variables_Get w n h1 = (x, True) \<and>
           Variables_Get w m h1 = Variables_Get v m h \<and>
           Variables_Get v n h1 = Variables_Get v n h \<and>
           Variables_Get v m h1 = Variables_Get v m h"
    by simp
next
  assume "allocated (variable_maps h) v"
  then obtain a where a: "v = Some a" "a < length (variable_maps h)"
    by (auto simp: allocated_def split: option.splits)
  with assms(2) show "\<exists>h2. Variables_Set v n x h = Inr (v, h2) \<and>
           Variables_Get v n h2 = (x, True) \<and>
           Variables_Get v m h2 = Variables_Get v m h"
    by (simp add: Variables_Set_def Variables_assign_def map_assign_def deref_def
        Variables_Get_def map_index_update map_index_def)
qed

text \<open>The amended claim on the example store: variable set \<open>{a: 1}\<close>, new name \<open>b\<close>.\<close>

theorem Variables_With_copies_Set_in_place_witness:
  "valid (variable_maps example_store) (Some 0) \<and> ''a'' \<noteq> ''b'' \<and>
   allocated (variable_maps example_store) (Some 0) \<and>
   (\<exists>w h1. Variables_With (Some 0) ''b'' (Some 2) example_store = Inr (w, h1) \<and>
      Variables_Get w ''b'' h1 = (Some 2, True) \<and>
      Variables_Get w ''a'' h1 = (Some 1, True) \<and>
      Variables_Get (Some 0) ''b'' h1 = (None, False) \<and>
      Variables_Get (Some 0) ''a'' h1 = (Some 1, True)) \<and>
   (\<exists>h2. Variables_Set (Some 0) ''b'' (Some 2) example_store = Inr (Some 0, h2) \<and>
      Variables_Get (Some 0) ''b'' h2 = (Some 2, True) \<and>
      Variables_Get (Some 0) ''a'' h2 = (Some 1, True))"
  using Variables_With_copies_Set_in_place [of example_store "Some 0" "''a''" "''b''" "Some 2"]
  by (simp add: example_store_def valid_def allocated_def Variables_Get_def map_index_def
      deref_def)

text \<open>
  Claim C3 as stated, for every variable set, fails on the nil set: \<open>Set\<close> assigns to an
  entry of a nil map, which panics, so it returns nothing and nothing is stored.
\<close>

theorem Variables_Set_nil_panics:
  "Variables_Set None ''b'' (Some 2) example_store = Inl NilMapAssignment"
  by (simp add: Variables_Set_def Variables_assign_def map_assign_def deref_def)

subsection \<open>Functions: \<open>Add\<close> is union, the added set wins\<close>

lemma Functions_range_loop:
  fixes h :: "('v, 'f) store"
  shows "a < length (function_maps h) \<Longrightarrow>
   range_loop es (\<lambda>name fn. Functions_assign (Some a) name fn) h =
     Inr (h\<lparr>function_maps := (function_maps h)
            [a := fold (\<lambda>(k, x). DAList.update k x) es (function_maps h ! a)]\<rparr>)"
proof (induction es arbitrary: h)
  case Nil
  then show ?case by simp
next
  case (Cons e es)
  obtain k x where e: "e = (k, x)" by (cases e)
  let ?h1 = "h\<lparr>function_maps := (function_maps h)[a := DAList.update k x (function_maps h ! a)]\<rparr>"
  have step: "Functions_assign (Some a) k x h = Inr ?h1"
    using Cons.prems by (simp add: Functions_assign_def map_assign_def deref_def)
  have "a < length (function_maps ?h1)" using Cons.prems by simp
  from Cons.IH [OF this] step e Cons.prems show ?case by simp
qed

lemma Functions_Add_allocated:
  assumes "a < length (function_maps h)"
  shows "Functions_Add (Some a) g h =
     Inr (Some a, h\<lparr>function_maps := (function_maps h)
            [a := fold (\<lambda>(k, x). DAList.update k x) (map_range (function_maps h) g)
                    (function_maps h ! a)]\<rparr>)"
  using assms by (simp add: Functions_Add_def Functions_range_loop)

lemma Functions_Add_nothing:
  "map_range (function_maps h) g = [] \<Longrightarrow> Functions_Add f g h = Inr (f, h)"
  by (simp add: Functions_Add_def)

lemma Functions_Get_Add:
  assumes "allocated (function_maps h) f \<or> map_range (function_maps h) g = []"
  shows "\<exists>h1. Functions_Add f g h = Inr (f, h1) \<and>
           (\<forall>n. Functions_Get f n h1 =
              (if snd (Functions_Get g n h) then Functions_Get g n h else Functions_Get f n h))"
proof (cases "map_range (function_maps h) g = []")
  case True
  then have "snd (Functions_Get g n h) = False" for n
    by (simp add: Functions_Get_def map_index_range)
  with True show ?thesis by (simp add: Functions_Add_nothing)
next
  case False
  with assms obtain a where a: "f = Some a" "a < length (function_maps h)"
    by (auto simp: allocated_def split: option.splits)
  then have f: "map_index (function_maps h) (Some a) n = DAList.lookup (function_maps h ! a) n"
    for n
    by (simp add: map_index_def deref_def)
  show ?thesis
    using a by (auto simp: Functions_Add_allocated Functions_Get_def map_index_update
        lookup_copy f split: option.splits)
qed

text \<open>
  Claim C4, as amended. For all function sets \<open>f\<close> and \<open>g\<close> such that \<open>f\<close> is not nil or
  \<open>g\<close> binds no name, \<open>f.Add(g)\<close> returns \<open>f\<close> itself, and afterwards \<open>f.Get(n)\<close> is
  \<open>g\<close>'s entry when \<open>g\<close> binds \<open>n\<close> and \<open>f\<close>'s earlier answer otherwise (its own entry,
  or absence when neither binds \<open>n\<close>); the names \<open>f\<close> binds are then exactly the
  union of the names the two sets bound.
\<close>

theorem Functions_Add_union:
  assumes "allocated (function_maps h) f \<or> map_range (function_maps h) g = []"
  shows "\<exists>h1. Functions_Add f g h = Inr (f, h1) \<and>
           Functions_Get f n h1 =
             (if snd (Functions_Get g n h) then Functions_Get g n h else Functions_Get f n h) \<and>
           {k. snd (Functions_Get f k h1)} =
             {k. snd (Functions_Get f k h)} \<union> {k. snd (Functions_Get g k h)}"
proof -
  from Functions_Get_Add [OF assms] obtain h1 where
    A: "Functions_Add f g h = Inr (f, h1)" and
    G: "\<And>n. Functions_Get f n h1 =
              (if snd (Functions_Get g n h) then Functions_Get g n h else Functions_Get f n h)"
    by blast
  have "{k. snd (Functions_Get f k h1)} =
             {k. snd (Functions_Get f k h)} \<union> {k. snd (Functions_Get g k h)}"
    by (auto simp: G)
  with A G show ?thesis by simp
qed

text \<open>
  The amended claim on the example store: \<open>{now: 5}\<close> added to \<open>{now: 6, if: 2}\<close>.
\<close>

theorem Functions_Add_union_witness:
  "(allocated (function_maps example_store) (Some 1) \<or>
      map_range (function_maps example_store) (Some 0) = []) \<and>
   Functions_Get (Some 1) ''now'' example_store = (Some 6, True) \<and>
   Functions_Get (Some 0) ''now'' example_store = (Some 5, True) \<and>
   (\<exists>h1. Functions_Add (Some 1) (Some 0) example_store = Inr (Some 1, h1) \<and>
      Functions_Get (Some 1) ''now'' h1 = (Some 5, True) \<and>
      {k. snd (Functions_Get (Some 1) k h1)} =
        {k. snd (Functions_Get (Some 1) k example_store)} \<union>
        {k. snd (Functions_Get (Some 0) k example_store)})"
proof -
  have a: "allocated (function_maps example_store) (Some 1) \<or>
      map_range (function_maps example_store) (Some 0) = []"
    by (simp add: example_store_def allocated_def)
  have f: "Functions_Get (Some 1) ''now'' example_store = (Some 6, True)"
    by (simp add: example_store_def Functions_Get_def map_index_def deref_def)
  have g: "Functions_Get (Some 0) ''now'' example_store = (Some 5, True)"
    by (simp add: example_store_def Functions_Get_def map_index_def deref_def)
  from Functions_Add_union [OF a, of "''now''"] a f g show ?thesis
    by simp
qed

text \<open>
  Claim C4 as stated, for all function sets, fails when \<open>f\<close> is nil and \<open>g\<close> binds a
  name: the loop assigns to an entry of a nil map and panics.
\<close>

theorem Functions_Add_nil_panics:
  "Functions_Add None (Some 0) example_store = Inl NilMapAssignment"
  by (simp add: Functions_Add_def example_store_def map_range_def deref_def
      DAList.update.rep_eq DAList.empty.rep_eq Functions_assign_def map_assign_def)

subsection \<open>Document: construction, get and replace-root\<close>

lemma Document_Set_allocated:
  "a < length (documents h) \<Longrightarrow>
   Document_Set (Some a) y h =
     Inr (h\<lparr>documents := (documents h)[a := (documents h ! a)\<lparr>data := y\<rparr>]\<rparr>)"
  by (simp add: Document_Set_def deref_def)

lemma Document_Set_Data:
  assumes "allocated (documents h) d"
  shows "\<exists>h'. Document_Set d y h = Inr h' \<and>
           Document_Data d h' = Inr y \<and>
           length (documents h') = length (documents h) \<and>
           variable_maps h' = variable_maps h \<and> function_maps h' = function_maps h \<and>
           (\<forall>e. e \<noteq> d \<longrightarrow> Document_Data e h' = Document_Data e h)"
proof -
  from assms obtain a where a: "d = Some a" "a < length (documents h)"
    by (auto simp: allocated_def split: option.splits)
  then show ?thesis
    by (auto simp: Document_Set_allocated Document_Data_def deref_update)
qed

text \<open>
  Claim C6. \<open>NewDocument(x)\<close> returns a nil error and a document whose root is \<open>x\<close>.
  Held in a variable \<open>d\<close>, \<open>d.Data()\<close> is \<open>x\<close>; after \<open>d.Set(y)\<close> it is \<open>y\<close>, and after
  a further \<open>d.Set(z)\<close> it is \<open>z\<close>: the root most recently set, whatever value that
  is (nil, the null root, included).
\<close>

theorem Document_get_and_replace_root:
  "snd (NewDocument x) = None \<and> data (fst (NewDocument x)) = x \<and>
   (case new_Document (fst (NewDocument x)) h of (d, h1) \<Rightarrow>
      Document_Data d h1 = Inr x \<and>
      (\<exists>h2. Document_Set d y h1 = Inr h2 \<and> Document_Data d h2 = Inr y \<and>
         (\<exists>h3. Document_Set d z h2 = Inr h3 \<and> Document_Data d h3 = Inr z)))"
  by (simp add: NewDocument_def new_Document_def Document_Data_def Document_Set_def deref_def)

subsection \<open>Function values: \<open>BasicFunction\<close>\<close>

text \<open>
  Claim C7. The function built by \<open>BasicFunction(f, s)\<close> evaluates to exactly what \<open>f\<close>
  yields on the same context and argument expressions (the value, the error, the
  effect on the state, or the panic), and its description is \<open>s\<close>.
\<close>

theorem BasicFunction_wraps:
  "Evaluate (BasicFunction fn s) ctx args st = fn ctx args st \<and>
   Description (BasicFunction fn s) = s"
  by (simp add: BasicFunction_def basicFunc_Evaluate_def basicFunc_Description_def)

subsection \<open>Context: construction\<close>

text \<open>
  Claim C5. A context built with a nil coalescer has the coalescer that the strict
  factory returns; a coalescer that is given is kept.
\<close>

theorem NewContext_nil_coalescer_is_strict:
  "Coalesce (fst (NewContext NewStrict doc vars fns None h)) = NewStrict \<and>
   Coalesce (fst (NewContext NewStrict doc vars fns (Some k) h)) = Some k"
  by (simp add: NewContext_def Coalesce_def new_Document_def split: prod.splits)

text \<open>
  Claim C9. \<open>NewContext(d, nil, nil, k)\<close> is the context built from a new empty set of
  functions and a new empty set of variables: every \<open>GetVariable\<close> and \<open>GetFunction\<close>
  yields the zero value and \<open>false\<close>, and the sets it holds accept new entries (\<open>Set\<close>
  on either returns instead of panicking, and \<open>WithVariable\<close> extends the context).
\<close>

theorem NewContext_nil_sets:
  "(case NewContext NewStrict doc None None k h of (c, h1) \<Rightarrow>
      GetVariable c n h1 = (None, False) \<and>
      GetFunction c n h1 = (None, False) \<and>
      (\<exists>h2. Variables_Set (variables c) n x h1 = Inr (variables c, h2) \<and>
         Variables_Get (variables c) n h2 = (x, True)) \<and>
      (\<exists>h2. Functions_Set (funcs c) n fn h1 = Inr (funcs c, h2) \<and>
         Functions_Get (funcs c) n h2 = (fn, True)) \<and>
      (\<exists>c' h2. WithVariable c n x h1 = Inr (c', h2) \<and> GetVariable c' n h2 = (x, True))) \<and>
   NewContext NewStrict doc None None k h =
     (case NewFunctions h of (fns, ha) \<Rightarrow>
        case NewVariables ha of (vars, hb) \<Rightarrow> NewContext NewStrict doc vars fns k hb)"
  by (simp add: NewContext_def new_Document_def NewFunctions_def NewVariables_def make_map_def
      GetVariable_def GetFunction_def Variables_Get_def Functions_Get_def map_index_def
      deref_def Variables_Set_def Variables_assign_def Functions_Set_def Functions_assign_def
      map_assign_def WithVariable_def Variables_With_eq)

lemma NewContext_document:
  "NewContext NewStrict doc vars fns coal h = (c, h1) \<Longrightarrow>
     GetDocument c = Some (length (documents h)) \<and> documents h1 = documents h @ [doc]"
  by (auto simp: NewContext_def new_Document_def NewFunctions_def NewVariables_def make_map_def
      GetDocument_def Let_def split: if_splits)

text \<open>
  Claim C8, as amended. \<open>NewContext\<close> stores its document argument in a cell of its own,
  a copy of the struct. Let the caller's document live in cell \<open>q\<close>. The handle of the
  new context is a new address, different from \<open>q\<close>, and reads the root of the caller's
  document; after \<open>Set(x)\<close> through that handle the caller's document still has its
  root. A second context built from the same document has yet another handle, and all
  three cells hold the same root value: \<open>Set\<close> through either context is not seen
  through the other, nor by the caller. (The copy is of the struct only: a root that
  is a map is the same map in all three.)
\<close>

theorem NewContext_copies_document:
  assumes "deref (documents h) q = Some doc"
  shows "case NewContext NewStrict doc vars fns coal h of (c, h1) \<Rightarrow>
      GetDocument c \<noteq> q \<and>
      \<not> allocated (documents h) (GetDocument c) \<and>
      Document_Data (GetDocument c) h1 = Inr (data doc) \<and>
      (\<exists>h2. Document_Set (GetDocument c) x h1 = Inr h2 \<and>
         Document_Data (GetDocument c) h2 = Inr x \<and>
         Document_Data q h2 = Inr (data doc)) \<and>
      (case NewContext NewStrict' doc vars' fns' coal' h1 of (c', h1') \<Rightarrow>
         GetDocument c' \<noteq> GetDocument c \<and>
         Document_Data (GetDocument c) h1' = Inr (data doc) \<and>
         Document_Data (GetDocument c') h1' = Inr (data doc) \<and>
         Document_Data q h1' = Inr (data doc) \<and>
         (\<exists>h2. Document_Set (GetDocument c) x h1' = Inr h2 \<and>
            Document_Data (GetDocument c') h2 = Inr (data doc) \<and>
            Document_Data q h2 = Inr (data doc)) \<and>
         (\<exists>h2. Document_Set (GetDocument c') y h1' = Inr h2 \<and>
            Document_Data (GetDocument c) h2 = Inr (data doc) \<and>
            Document_Data q h2 = Inr (data doc)))"
proof -
  from assms obtain a where q: "q = Some a" "a < length (documents h)" "documents h ! a = doc"
    by (auto simp: deref_Some_iff)
  obtain c h1 where c: "NewContext NewStrict doc vars fns coal h = (c, h1)"
    by (cases "NewContext NewStrict doc vars fns coal h")
  obtain c' h1' where c': "NewContext NewStrict' doc vars' fns' coal' h1 = (c', h1')"
    by (cases "NewContext NewStrict' doc vars' fns' coal' h1")
  note 1 = NewContext_document [OF c]
  note 2 = NewContext_document [OF c']
  from q 1 2 show ?thesis
    by (simp add: c c' allocated_def Document_Data_def Document_Set_def deref_def nth_append)
qed

text \<open>
  On the example store: the caller's document is object \<open>0\<close> with root \<open>7\<close>; the two
  contexts get the handles \<open>1\<close> and \<open>2\<close>.
\<close>

theorem NewContext_copies_document_witness:
  "deref (documents example_store) (Some 0) = Some \<lparr>data = Some 7\<rparr> \<and>
   (case NewContext (Some (0::nat)) \<lparr>data = Some 7\<rparr> None (Some 0) None example_store of (c, h1) \<Rightarrow>
      GetDocument c = Some 1 \<and>
      Document_Data (GetDocument c) h1 = Inr (Some 7) \<and>
      (\<exists>h2. Document_Set (GetDocument c) (Some 8) h1 = Inr h2 \<and>
         Document_Data (GetDocument c) h2 = Inr (Some 8) \<and>
         Document_Data (Some 0) h2 = Inr (Some 7)) \<and>
      (case NewContext (Some (0::nat)) \<lparr>data = Some 7\<rparr> None None (Some 4) h1 of (c', h1') \<Rightarrow>
         GetDocument c' = Some 2 \<and>
         Document_Data (GetDocument c) h1' = Inr (Some 7) \<and>
         Document_Data (GetDocument c') h1' = Inr (Some 7) \<and>
         Document_Data (Some 0) h1' = Inr (Some 7) \<and>
         (\<exists>h2. Document_Set (GetDocument c) (Some 8) h1' = Inr h2 \<and>
            Document_Data (GetDocument c') h2 = Inr (Some 7) \<and>
            Document_Data (Some 0) h2 = Inr (Some 7)) \<and>
         (\<exists>h2. Document_Set (GetDocument c') (Some 9) h1' = Inr h2 \<and>
            Document_Data (GetDocument c) h2 = Inr (Some 7) \<and>
            Document_Data (Some 0) h2 = Inr (Some 7))))"
proof -
  have q: "deref (documents example_store) (Some 0) = Some \<lparr>data = Some (7::nat)\<rparr>"
    by (simp add: example_store_def deref_def)
  obtain c h1 where c:
    "NewContext (Some (0::nat)) \<lparr>data = Some 7\<rparr> None (Some 0) None example_store = (c, h1)"
    by (cases "NewContext (Some (0::nat)) \<lparr>data = Some 7\<rparr> None (Some 0) None example_store")
  obtain c' h1' where c':
    "NewContext (Some (0::nat)) \<lparr>data = Some 7\<rparr> None None (Some 4) h1 = (c', h1')"
    by (cases "NewContext (Some (0::nat)) \<lparr>data = Some 7\<rparr> None None (Some 4) h1")
  from NewContext_document [OF c] have 1: "GetDocument c = Some 1"
    by (simp add: example_store_def)
  from NewContext_document [OF c'] NewContext_document [OF c] have 2: "GetDocument c' = Some 2"
    by (simp add: example_store_def)
  from NewContext_copies_document [OF q, where NewStrict = "Some (0::nat)" and vars = None
      and fns = "Some 0" and coal = None and x = "Some 8" and NewStrict' = "Some (0::nat)"
      and vars' = None and fns' = None and coal' = "Some 4" and y = "Some 9"] q 1 2
  show ?thesis
    by (simp add: c c')
qed

text \<open>
  Claim C8 as stated, that two contexts built from the same document never observe
  each other's document mutations, fails for a root of reference type. The caller's
  document has the map \<open>{foo: 9000}\<close> as root; the two contexts get the handles \<open>1\<close>
  and \<open>2\<close>; the write \<open>foo = 42\<close> inside the root through the first context is read
  through the second, and through the caller's document.
\<close>

theorem NewContext_shares_map_root:
  "GetDocument (fst (fst two_contexts)) = Some 1 \<and>
   GetDocument (snd (fst two_contexts)) = Some 2 \<and>
   Document_root_index (Some 2) ''foo'' (snd two_contexts) = Inr (Some (Scalar 9000), True) \<and>
   root_assign_then_index (Some 1) (Some 2) ''foo'' (Some (Scalar 42)) (snd two_contexts) =
     Inr (Some (Scalar 42), True) \<and>
   root_assign_then_index (Some 1) (Some 0) ''foo'' (Some (Scalar 42)) (snd two_contexts) =
     Inr (Some (Scalar 42), True)"
  by (simp add: two_contexts_def map_root_store_def NewContext_def new_Document_def
      NewFunctions_def NewVariables_def make_map_def GetDocument_def
      root_assign_then_index_def Document_root_assign_def Document_root_index_def
      Document_Data_def deref_def map_assign_def map_index_def nth_append)

subsection \<open>Context: derivation\<close>

lemma WithVariable_eq:
  "WithVariable c n v h =
     (case Variables_With (variables c) n v h of
        Inl p \<Rightarrow> Inl p
      | Inr (vars', h') \<Rightarrow> Inr (c\<lparr>variables := vars'\<rparr>, h'))"
  by (simp add: WithVariable_def split: sum.splits)

text \<open>
  Claim C2. For a context \<open>c\<close> (whose variable set is nil or an existing map),
  \<open>d := c.WithVariable(n, v)\<close> has \<open>d.GetVariable(n) = (v, true)\<close>, agrees with \<open>c\<close> on
  every other variable \<open>m\<close>, on every function \<open>l\<close>, on the coalescer and on the
  document handle; and \<open>c\<close> answers after the call what it answered before, for \<open>n\<close>
  too. \<open>c.WithCoalescer(k)\<close> has coalescer \<open>k\<close> and the variables, functions and
  document of \<open>c\<close>; it does not touch the store.
\<close>

theorem Context_derivation_frame:
  assumes "valid (variable_maps h) (variables c)" and "m \<noteq> n"
  shows "(\<exists>d h1. WithVariable c n v h = Inr (d, h1) \<and>
            GetVariable d n h1 = (v, True) \<and>
            GetVariable d m h1 = GetVariable c m h \<and>
            GetFunction d l h1 = GetFunction c l h \<and>
            Coalesce d = Coalesce c \<and>
            GetDocument d = GetDocument c \<and>
            GetVariable c n h1 = GetVariable c n h \<and>
            GetVariable c m h1 = GetVariable c m h \<and>
            GetFunction c l h1 = GetFunction c l h \<and>
            Document_Data (GetDocument c) h1 = Document_Data (GetDocument c) h) \<and>
         Coalesce (WithCoalescer c k) = k \<and>
         GetVariable (WithCoalescer c k) l h = GetVariable c l h \<and>
         GetFunction (WithCoalescer c k) l h = GetFunction c l h \<and>
         GetDocument (WithCoalescer c k) = GetDocument c"
proof -
  obtain w h1 where W: "Variables_With (variables c) n v h = Inr (w, h1)"
    by (simp add: Variables_With_eq)
  have h1: "function_maps h1 = function_maps h" "documents h1 = documents h"
    using W by (auto simp: Variables_With_eq)
  have "WithVariable c n v h = Inr (c\<lparr>variables := w\<rparr>, h1)"
    using W by (simp add: WithVariable_eq)
  moreover have "GetVariable (c\<lparr>variables := w\<rparr>) n h1 = (v, True)"
    and "GetVariable (c\<lparr>variables := w\<rparr>) m h1 = GetVariable c m h"
    using Variables_Get_With [OF W] assms(2) by (simp_all add: GetVariable_def)
  moreover have "GetVariable c n h1 = GetVariable c n h"
    and "GetVariable c m h1 = GetVariable c m h"
    using Variables_Get_With_frame [OF W assms(1)] by (simp_all add: GetVariable_def)
  moreover have "GetFunction (c\<lparr>variables := w\<rparr>) l h1 = GetFunction c l h"
    and "GetFunction c l h1 = GetFunction c l h"
    and "Document_Data (GetDocument c) h1 = Document_Data (GetDocument c) h"
    using h1 by (simp_all add: GetFunction_def Functions_Get_def Document_Data_def)
  ultimately show ?thesis
    by (simp add: Coalesce_def GetDocument_def WithCoalescer_def GetVariable_def
        GetFunction_def)
qed

text \<open>
  On the example store, with the new variable \<open>b\<close>.
\<close>

theorem Context_derivation_frame_witness:
  "valid (variable_maps example_store) (variables example_context) \<and> ''a'' \<noteq> ''b'' \<and>
   (\<exists>d h1. WithVariable example_context ''b'' (Some 2) example_store = Inr (d, h1) \<and>
      GetVariable d ''b'' h1 = (Some 2, True) \<and>
      GetVariable d ''a'' h1 = (Some 1, True) \<and>
      GetFunction d ''now'' h1 = (Some 5, True) \<and>
      Coalesce d = Some 3 \<and>
      GetDocument d = Some 0 \<and>
      GetVariable example_context ''b'' h1 = (None, False) \<and>
      GetVariable example_context ''a'' h1 = (Some 1, True) \<and>
      GetFunction example_context ''now'' h1 = (Some 5, True) \<and>
      Document_Data (GetDocument example_context) h1 = Inr (Some 7)) \<and>
   Coalesce (WithCoalescer example_context (Some 4)) = Some 4 \<and>
   GetVariable (WithCoalescer example_context (Some 4)) ''now'' example_store = (None, False) \<and>
   GetFunction (WithCoalescer example_context (Some 4)) ''now'' example_store = (Some 5, True) \<and>
   GetDocument (WithCoalescer example_context (Some 4)) = Some 0"
  using Context_derivation_frame [of example_store example_context "''a''" "''b''" "Some 2"
      "''now''" "Some 4"]
  by (simp add: example_store_def example_context_def valid_def GetVariable_def GetFunction_def
      Variables_Get_def Functions_Get_def map_index_def deref_def Coalesce_def GetDocument_def
      Document_Data_def)

text \<open>
  Claim C1. \<open>c.WithVariable(n, v)\<close> and \<open>c.WithCoalescer(k)\<close> hold the document handle
  of \<open>c\<close>. So, when that handle refers to a document, \<open>Set(x)\<close> through the handle of
  any of the three contexts succeeds, and \<open>Data()\<close> through the handle of any of them
  then returns \<open>x\<close>.
\<close>

theorem Document_handle_shared:
  "\<exists>d h1. WithVariable c n v h = Inr (d, h1) \<and>
      GetDocument d = GetDocument c \<and>
      GetDocument (WithCoalescer c k) = GetDocument c \<and>
      (allocated (documents h) (GetDocument c) \<longrightarrow>
         (\<forall>s \<in> {GetDocument c, GetDocument d, GetDocument (WithCoalescer c k)}.
          \<forall>r \<in> {GetDocument c, GetDocument d, GetDocument (WithCoalescer c k)}.
            \<exists>h2. Document_Set s x h1 = Inr h2 \<and> Document_Data r h2 = Inr x))"
proof -
  obtain w h1 where W: "Variables_With (variables c) n v h = Inr (w, h1)"
    by (simp add: Variables_With_eq)
  then have docs: "documents h1 = documents h"
    by (auto simp: Variables_With_eq)
  have D: "WithVariable c n v h = Inr (c\<lparr>variables := w\<rparr>, h1)"
    using W by (simp add: WithVariable_eq)
  have "\<exists>h2. Document_Set (GetDocument c) x h1 = Inr h2 \<and>
          Document_Data (GetDocument c) h2 = Inr x"
    if "allocated (documents h) (GetDocument c)"
    using Document_Set_Data [of h1 "GetDocument c" x] that docs by auto
  with D show ?thesis
    by (simp add: GetDocument_def WithCoalescer_def)
qed

text \<open>
  On the example store: \<open>Set(9)\<close> through the context that \<open>WithVariable\<close> returned is
  read back through the original context and through the one from \<open>WithCoalescer\<close>.
\<close>

theorem Document_handle_shared_witness:
  "allocated (documents example_store) (GetDocument example_context) \<and>
   (\<exists>d h1. WithVariable example_context ''b'' (Some 2) example_store = Inr (d, h1) \<and>
      GetDocument d = GetDocument example_context \<and>
      GetDocument (WithCoalescer example_context (Some 4)) = GetDocument example_context \<and>
      (\<exists>h2. Document_Set (GetDocument d) (Some 9) h1 = Inr h2 \<and>
         Document_Data (GetDocument example_context) h2 = Inr (Some 9) \<and>
         Document_Data (GetDocument (WithCoalescer example_context (Some 4))) h2 = Inr (Some 9)))"
proof -
  have a: "allocated (documents example_store) (GetDocument example_context)"
    by (simp add: example_store_def example_context_def allocated_def GetDocument_def)
  from Document_handle_shared [of example_context "''b''" "Some 2" example_store "Some 4" "Some 9"]
  obtain d h1 where d: "WithVariable example_context ''b'' (Some 2) example_store = Inr (d, h1)"
      "GetDocument d = GetDocument example_context"
      "GetDocument (WithCoalescer example_context (Some 4)) = GetDocument example_context"
    and s: "allocated (documents example_store) (GetDocument example_context) \<longrightarrow>
         (\<forall>s \<in> {GetDocument example_context, GetDocument d,
                 GetDocument (WithCoalescer example_context (Some 4))}.
          \<forall>r \<in> {GetDocument example_context, GetDocument d,
                 GetDocument (WithCoalescer example_context (Some 4))}.
            \<exists>h2. Document_Set s (Some 9) h1 = Inr h2 \<and> Document_Data r h2 = Inr (Some 9))"
    by blast
  from s a d(2,3) obtain h2 where
    "Document_Set (GetDocument d) (Some 9) h1 = Inr h2"
    "Document_Data (GetDocument example_context) h2 = Inr (Some 9)"
    by auto
  with a d show ?thesis by auto
qed

subsection \<open>The built-in \<open>now\<close>\<close>

text \<open>
  Claim C10. For every layout, \<open>nowFunction\<close> returns a nil error and the value of
  \<open>time.Now()\<close> formatted as it is: no conversion stands between the clock reading and
  \<open>Format\<close>, so whenever formatting the reading converted to UTC gives another string,
  that string is not the result. The description registered for \<open>now\<close> nevertheless
  says \<open>(UTC)\<close>.
\<close>

theorem nowFunction_formats_local_time:
  "snd (nowFunction Now Format fmt) = None \<and>
   fst (nowFunction Now Format fmt) = Some (Format Now fmt) \<and>
   (Format (UTC Now) fmt \<noteq> Format Now fmt \<longrightarrow>
      fst (nowFunction Now Format fmt) \<noteq> Some (Format (UTC Now) fmt)) \<and>
   now_description =
     ''returns the current date & time '' @ ''(UTC)'' @ '', formatted like a Go date''"
  by (simp add: nowFunction_def now_description_def)

text \<open>On the example clock, whose zone is CET, with the layout \<open>15:04\<close>.\<close>

theorem nowFunction_formats_local_time_witness:
  "example_Format (example_UTC example_Now) ''15:04'' \<noteq> example_Format example_Now ''15:04'' \<and>
   nowFunction example_Now example_Format ''15:04'' = (Some ''15:04 CET'', None) \<and>
   example_Format (example_UTC example_Now) ''15:04'' = ''15:04 UTC'' \<and>
   fst (nowFunction example_Now example_Format ''15:04'') \<noteq>
     Some (example_Format (example_UTC example_Now) ''15:04'')"
  using nowFunction_formats_local_time [of example_Now example_Format "''15:04''" example_UTC]
  by (simp add: example_Format_def example_UTC_def example_Now_def nowFunction_def)

end
